theory Spec2Isabelle
  imports Main "HOL-Library.Word"
begin

section \<open>coretypes.h: the preprocessor level\<close>

text \<open>
  The header \<^verbatim>\<open>twitchcore/types/coretypes.h\<close> defines two macros and two type aliases.
  The macros are modelled where they live, in the preprocessor: a macro maps token
  sequences to token sequences. A token is the string of its spelling.
\<close>

type_synonym token = string

text \<open>
  \<^verbatim>\<open>#if TTV_PLATFORM_MAC\<close>. What the directive sees of the flag is one of three things.
  The build leaves the flag undefined: the identifier then counts as 0. Or the flag is
  defined and its replacement list is a constant expression: the preprocessor evaluates
  it in its widest integer type (\<^verbatim>\<open>intmax_t\<close> and \<^verbatim>\<open>uintmax_t\<close>, 64 bits), and \<open>Defined_as v\<close>
  is the flag with the value \<open>v\<close> it has there (\<^verbatim>\<open>-DTTV_PLATFORM_MAC=1\<close> is
  \<open>Defined_as 1\<close>; a literal beyond 64 bits that a compiler accepts has the value it
  wraps to). Or the flag is defined and its replacement list is no constant expression
  for the preprocessor (\<^verbatim>\<open>#define TTV_PLATFORM_MAC\<close> with no token, a literal it
  rejects): the directive is an error and the header does not preprocess.
\<close>

datatype flag = Not_defined | Defined_invalid | Defined_as "64 word"

datatype pp_error = Invalid_if_expression

text \<open>The group of an \<^verbatim>\<open>#if\<close> is taken when the controlling expression is not 0.\<close>

fun pp_if :: "flag \<Rightarrow> pp_error + bool" where
  "pp_if Not_defined = Inr False"
| "pp_if Defined_invalid = Inl Invalid_if_expression"
| "pp_if (Defined_as v) = Inr (v \<noteq> 0)"

text \<open>
  \<^verbatim>\<open>#if TTV_PLATFORM_MAC\<close> /
  \<^verbatim>\<open>#  define TTVSDK_API __attribute__((visibility("default")))\<close> /
  \<^verbatim>\<open>#else\<close> / \<^verbatim>\<open>#  define TTVSDK_API\<close> / \<^verbatim>\<open>#endif\<close>:
  the replacement list of the object-like macro, given the flag, or the error of the
  directive.
\<close>

definition TTVSDK_API :: "flag \<Rightarrow> pp_error + token list" where
  "TTVSDK_API TTV_PLATFORM_MAC =
     (case pp_if TTV_PLATFORM_MAC of
        Inl err \<Rightarrow> Inl err
      | Inr taken \<Rightarrow>
          Inr (if taken
               then [''__attribute__'', ''('', ''('', ''visibility'', ''('',
                     CHR 0x22 # ''default'' @ [CHR 0x22], '')'', '')'', '')'']
               else []))"

text \<open>
  Replacing a parameter of a function-like macro: every token of the replacement list
  that spells the parameter is replaced by the tokens of the argument.
\<close>

fun substitute :: "token \<Rightarrow> token list \<Rightarrow> token list \<Rightarrow> token list" where
  "substitute p arg [] = []"
| "substitute p arg (t # ts) = (if t = p then arg else [t]) @ substitute p arg ts"

text \<open>
  \<^verbatim>\<open>#define UNUSED(x) (void)x;\<close>: one parameter \<open>x\<close>, and the replacement list
  \<^verbatim>\<open>( void ) x ;\<close>. The parameter stands without parentheses of its own, and the
  semicolon belongs to the macro.
\<close>

definition UNUSED :: "token list \<Rightarrow> token list" where
  "UNUSED arg = substitute ''x'' arg [''('', ''void'', '')'', ''x'', '';'']"

section \<open>The type aliases\<close>

text \<open>
  \<^verbatim>\<open>typedef char utf8char;\<close> and \<^verbatim>\<open>typedef unsigned int uint;\<close>. A typedef introduces a
  second name for a type and no new type. A \<^verbatim>\<open>char\<close> is one byte, of 8 bits on the
  targets of the SDK; \<^verbatim>\<open>unsigned int\<close> has the target's width, the type parameter
  \<open>'w\<close> of the theory (\<open>LENGTH('w)\<close> bits).
\<close>

datatype ctype = TVoid | TChar | TUnsignedInt | TInt

definition typedefs :: "string \<rightharpoonup> ctype" where
  "typedefs = [''utf8char'' \<mapsto> TChar, ''uint'' \<mapsto> TUnsignedInt]"

type_synonym c_char = "8 word"
type_synonym utf8char = c_char
type_synonym 'w uint = "'w word"

text \<open>
  A value of the language with the type it has. The parameter \<open>'u\<close> is the
  representation of \<^verbatim>\<open>unsigned int\<close> and \<^verbatim>\<open>int\<close>, everywhere \<open>'w word\<close>.
\<close>

datatype 'u cval = VoidVal | CharVal utf8char | UIntVal 'u | IntVal 'u

fun val_type :: "'u cval \<Rightarrow> ctype" where
  "val_type VoidVal = TVoid"
| "val_type (CharVal c) = TChar"
| "val_type (UIntVal u) = TUnsignedInt"
| "val_type (IntVal i) = TInt"

text \<open>
  Whether plain \<^verbatim>\<open>char\<close> is signed is the implementation's choice; \<open>char_signed\<close> is
  that choice. The number a \<^verbatim>\<open>utf8char\<close> holding the byte \<open>c\<close> stands for:
\<close>

definition utf8char_value :: "bool \<Rightarrow> utf8char \<Rightarrow> int" where
  "utf8char_value char_signed c = (if char_signed then sint c else Word.uint c)"

text \<open>The number a \<^verbatim>\<open>uint\<close> stands for.\<close>

definition uint_value :: "'w::len uint \<Rightarrow> int" where
  "uint_value u = Word.uint u"

fun val_int :: "bool \<Rightarrow> 'w::len word cval \<Rightarrow> int option" where
  "val_int char_signed VoidVal = None"
| "val_int char_signed (CharVal c) = Some (utf8char_value char_signed c)"
| "val_int char_signed (UIntVal u) = Some (uint_value u)"
| "val_int char_signed (IntVal i) = Some (sint i)"

text \<open>The size of a value's object in bits, and \<^verbatim>\<open>sizeof\<close>: its size in bytes.\<close>

fun object_bits :: "'w::len word cval \<Rightarrow> nat" where
  "object_bits VoidVal = 0"
| "object_bits (CharVal c) = size c"
| "object_bits (UIntVal u) = size u"
| "object_bits (IntVal i) = size i"

definition sizeof :: "'w::len word cval \<Rightarrow> nat" where
  "sizeof v = object_bits v div 8"

subsection \<open>Arithmetic\<close>

text \<open>
  The language defines no error for arithmetic, but undefined behaviour: signed
  overflow and division by zero. A program the compiler rejects is \<open>Ill_formed\<close>.
\<close>

datatype error = Ill_formed | Signed_overflow | Division_by_zero

datatype binop = Plus | Minus | Times | Divide

text \<open>Conversion of a number to a type; to an integer type it is modulo \<open>2 ^ width\<close>.\<close>

fun convert :: "ctype \<Rightarrow> int \<Rightarrow> 'w::len word cval" where
  "convert TVoid n = VoidVal"
| "convert TChar n = CharVal (word_of_int n)"
| "convert TUnsignedInt n = UIntVal (word_of_int n)"
| "convert TInt n = IntVal (word_of_int n)"

text \<open>Division truncates towards zero.\<close>

definition quotient :: "int \<Rightarrow> int \<Rightarrow> int" where
  "quotient a b = (if (a < 0) = (b < 0) then \<bar>a\<bar> div \<bar>b\<bar> else - (\<bar>a\<bar> div \<bar>b\<bar>))"

fun apply_op :: "binop \<Rightarrow> int \<Rightarrow> int \<Rightarrow> int" where
  "apply_op Plus a b = a + b"
| "apply_op Minus a b = a - b"
| "apply_op Times a b = a * b"
| "apply_op Divide a b = quotient a b"

text \<open>
  The usual arithmetic conversions: a \<^verbatim>\<open>char\<close> operand is promoted to \<^verbatim>\<open>int\<close>; when one
  operand is \<^verbatim>\<open>unsigned int\<close> the other is converted to it and the operation is
  unsigned, otherwise it is an operation of \<^verbatim>\<open>int\<close>.
\<close>

fun common_type :: "ctype \<Rightarrow> ctype \<Rightarrow> ctype" where
  "common_type TUnsignedInt b = TUnsignedInt"
| "common_type a TUnsignedInt = TUnsignedInt"
| "common_type a b = TInt"

definition unsigned_op :: "binop \<Rightarrow> 'w::len uint \<Rightarrow> 'w uint \<Rightarrow> error + 'w uint" where
  "unsigned_op op a b =
     (case op of
        Plus \<Rightarrow> Inr (a + b)
      | Minus \<Rightarrow> Inr (a - b)
      | Times \<Rightarrow> Inr (a * b)
      | Divide \<Rightarrow> if b = 0 then Inl Division_by_zero else Inr (a div b))"

definition signed_op :: "binop \<Rightarrow> 'w::len word \<Rightarrow> 'w word \<Rightarrow> error + 'w word" where
  "signed_op op a b =
     (if op = Divide \<and> b = 0 then Inl Division_by_zero
      else let r = apply_op op (sint a) (sint b)
           in if - (2 ^ (LENGTH('w) - 1)) \<le> r \<and> r < 2 ^ (LENGTH('w) - 1)
              then Inr (word_of_int r) else Inl Signed_overflow)"

definition binary ::
  "bool \<Rightarrow> binop \<Rightarrow> 'w::len word cval \<Rightarrow> 'w word cval \<Rightarrow> error + 'w word cval" where
  "binary char_signed op a b =
     (case (val_int char_signed a, val_int char_signed b) of
        (Some x, Some y) \<Rightarrow>
          (if common_type (val_type a) (val_type b) = TUnsignedInt
           then map_sum id UIntVal (unsigned_op op (word_of_int x) (word_of_int y))
           else map_sum id IntVal (signed_op op (word_of_int x) (word_of_int y)))
      | _ \<Rightarrow> Inl Ill_formed)"

section \<open>Expressions and the expression statement\<close>

text \<open>
  What an expansion of \<^verbatim>\<open>UNUSED\<close> does is a matter of the language the tokens are
  parsed in. The fragment below has what the macro's behaviour depends on: an operand
  that binds tighter than a cast (a name, a parenthesised expression, a postfix
  increment), operators that bind looser (the binary operators, assignment, the comma),
  side effects (increment, assignment) and undefined behaviour (signed overflow, division
  by zero).
\<close>

datatype expr =
    Var string
  | Paren expr
  | PostInc expr
  | CastVoid expr
  | Bin binop expr expr
  | Assign expr expr
  | Comma expr expr

datatype stmt = ExprStmt expr

subsection \<open>Syntax\<close>

fun op_token :: "binop \<Rightarrow> token" where
  "op_token Plus = ''+''"
| "op_token Minus = ''-''"
| "op_token Times = ''*''"
| "op_token Divide = ''/''"

fun unparse :: "expr \<Rightarrow> token list" where
  "unparse (Var n) = [n]"
| "unparse (Paren e) = ''('' # unparse e @ ['')'']"
| "unparse (PostInc e) = unparse e @ [''++'']"
| "unparse (CastVoid e) = [''('', ''void'', '')''] @ unparse e"
| "unparse (Bin op l r) = unparse l @ [op_token op] @ unparse r"
| "unparse (Assign l r) = unparse l @ [''=''] @ unparse r"
| "unparse (Comma l r) = unparse l @ ['',''] @ unparse r"

fun unparse_stmt :: "stmt \<Rightarrow> token list" where
  "unparse_stmt (ExprStmt e) = unparse e @ ['';'']"

text \<open>
  The levels of the grammar: 0 primary, 1 postfix, 2 cast, 3 multiplicative, 4 additive,
  5 assignment, 6 expression (comma). A tree is a parse tree when every operand is of a
  level its place in the production allows.
\<close>

text \<open>An identifier: letters, digits and the underscore, no digit first, no keyword.\<close>

definition identifier_char :: "char \<Rightarrow> bool" where
  "identifier_char c =
     (let k = of_char c :: nat
      in k = 95 \<or> (65 \<le> k \<and> k \<le> 90) \<or> (97 \<le> k \<and> k \<le> 122) \<or> (48 \<le> k \<and> k \<le> 57))"

definition is_identifier :: "token \<Rightarrow> bool" where
  "is_identifier t =
     (case t of
        [] \<Rightarrow> False
      | c # cs \<Rightarrow>
          list_all identifier_char t
          \<and> \<not> (48 \<le> (of_char c :: nat) \<and> (of_char c :: nat) \<le> 57)
          \<and> t \<noteq> ''void'')"

fun op_level :: "binop \<Rightarrow> nat" where
  "op_level Plus = 4"
| "op_level Minus = 4"
| "op_level Times = 3"
| "op_level Divide = 3"

fun level :: "expr \<Rightarrow> nat" where
  "level (Var n) = 0"
| "level (Paren e) = 0"
| "level (PostInc e) = 1"
| "level (CastVoid e) = 2"
| "level (Bin op l r) = op_level op"
| "level (Assign l r) = 5"
| "level (Comma l r) = 6"

fun grammatical :: "expr \<Rightarrow> bool" where
  "grammatical (Var n) = is_identifier n"
| "grammatical (Paren e) = grammatical e"
| "grammatical (PostInc e) = (grammatical e \<and> level e \<le> 1)"
| "grammatical (CastVoid e) = (grammatical e \<and> level e \<le> 2)"
| "grammatical (Bin op l r) =
     (grammatical l \<and> grammatical r \<and> level l \<le> op_level op \<and> level r < op_level op)"
| "grammatical (Assign l r) = (grammatical l \<and> grammatical r \<and> level l \<le> 4 \<and> level r \<le> 5)"
| "grammatical (Comma l r) = (grammatical l \<and> grammatical r \<and> level r \<le> 5)"

text \<open>
  The tokens \<^verbatim>\<open>( void )\<close> in front of the tokens of an expression. A cast takes a
  cast-expression as its operand, so the cast applies to the leftmost operand of that
  level, not to an expression of a looser operator as a whole:
  \<^verbatim>\<open>(void)a + b\<close> is \<^verbatim>\<open>((void)a) + b\<close>.
\<close>

fun prefix_void_cast :: "expr \<Rightarrow> expr" where
  "prefix_void_cast (Bin op l r) = Bin op (prefix_void_cast l) r"
| "prefix_void_cast (Assign l r) = Assign (prefix_void_cast l) r"
| "prefix_void_cast (Comma l r) = Comma (prefix_void_cast l) r"
| "prefix_void_cast e = CastVoid e"

text \<open>The statement an expansion of \<^verbatim>\<open>UNUSED(x)\<close> is, for the expression \<open>x\<close>.\<close>

definition UNUSED_stmt :: "expr \<Rightarrow> stmt" where
  "UNUSED_stmt x = ExprStmt (prefix_void_cast x)"

text \<open>A statement is a parse of a token sequence: a parse tree with these tokens.\<close>

fun grammatical_stmt :: "stmt \<Rightarrow> bool" where
  "grammatical_stmt (ExprStmt e) = grammatical e"

definition parses_as :: "token list \<Rightarrow> stmt \<Rightarrow> bool" where
  "parses_as ts st = (grammatical_stmt st \<and> unparse_stmt st = ts)"

subsection \<open>Types\<close>

text \<open>
  The variable an expression designates, when it is an lvalue. The header is C++: a name
  is an lvalue, an assignment is one (it designates its left side), a comma expression
  is one when its right side is, and so is a parenthesised lvalue. A postfix increment,
  a cast to \<^verbatim>\<open>void\<close> and an arithmetic operation are not.
\<close>

fun lvalue_name :: "expr \<Rightarrow> string option" where
  "lvalue_name (Var n) = Some n"
| "lvalue_name (Paren e) = lvalue_name e"
| "lvalue_name (Assign l r) = lvalue_name l"
| "lvalue_name (Comma l r) = lvalue_name r"
| "lvalue_name (PostInc e) = None"
| "lvalue_name (CastVoid e) = None"
| "lvalue_name (Bin op l r) = None"

text \<open>
  The type of an expression among variables of the types \<open>\<Gamma>\<close>; \<open>None\<close> when the
  compiler rejects it. An operand of an arithmetic operator or the right side of an
  assignment cannot be of type \<^verbatim>\<open>void\<close>, and the left side of an assignment and the
  operand of an increment must be lvalues.
\<close>

fun typeof :: "(string \<rightharpoonup> ctype) \<Rightarrow> expr \<Rightarrow> ctype option" where
  "typeof \<Gamma> (Var n) =
     (case \<Gamma> n of None \<Rightarrow> None | Some t \<Rightarrow> if t = TVoid then None else Some t)"
| "typeof \<Gamma> (Paren e) = typeof \<Gamma> e"
| "typeof \<Gamma> (PostInc e) = (if lvalue_name e = None then None else typeof \<Gamma> e)"
| "typeof \<Gamma> (CastVoid e) = (case typeof \<Gamma> e of None \<Rightarrow> None | Some t \<Rightarrow> Some TVoid)"
| "typeof \<Gamma> (Bin op l r) =
     (case (typeof \<Gamma> l, typeof \<Gamma> r) of
        (Some a, Some b) \<Rightarrow> if a = TVoid \<or> b = TVoid then None else Some (common_type a b)
      | _ \<Rightarrow> None)"
| "typeof \<Gamma> (Assign l r) =
     (case (lvalue_name l, typeof \<Gamma> l, typeof \<Gamma> r) of
        (Some n, Some a, Some b) \<Rightarrow> if b = TVoid then None else Some a
      | _ \<Rightarrow> None)"
| "typeof \<Gamma> (Comma l r) = (case typeof \<Gamma> l of None \<Rightarrow> None | Some a \<Rightarrow> typeof \<Gamma> r)"

fun compiles :: "(string \<rightharpoonup> ctype) \<Rightarrow> stmt \<Rightarrow> bool" where
  "compiles \<Gamma> (ExprStmt e) = (typeof \<Gamma> e \<noteq> None)"

subsection \<open>Evaluation\<close>

text \<open>
  The program state: the variables in scope with their values, and the side effects so
  far, each the variable written and the value stored.
\<close>

record 'u state =
  vars :: "string \<rightharpoonup> 'u cval"
  writes :: "(string \<times> 'u cval) list"

definition decls :: "'u state \<Rightarrow> string \<rightharpoonup> ctype" where
  "decls s = map_option val_type \<circ> vars s"

definition store :: "string \<Rightarrow> 'u cval \<Rightarrow> 'u state \<Rightarrow> 'u state" where
  "store n v s = s\<lparr>vars := (vars s)(n \<mapsto> v), writes := writes s @ [(n, v)]\<rparr>"

text \<open>\<^verbatim>\<open>v++\<close> stores \<^verbatim>\<open>v + 1\<close>, converted to the type of \<^verbatim>\<open>v\<close>.\<close>

definition increment :: "bool \<Rightarrow> 'w::len word cval \<Rightarrow> error + 'w word cval" where
  "increment char_signed v =
     (case binary char_signed Plus v (IntVal 1) of
        Inl err \<Rightarrow> Inl err
      | Inr r \<Rightarrow>
          (case val_int char_signed r of
             None \<Rightarrow> Inl Ill_formed
           | Some k \<Rightarrow> Inr (convert (val_type v) k)))"

definition assign ::
  "bool \<Rightarrow> expr \<Rightarrow> 'w::len word cval \<Rightarrow> 'w word state
    \<Rightarrow> error + ('w word cval \<times> 'w word state)" where
  "assign char_signed l b s =
     (case (lvalue_name l, val_int char_signed b) of
        (Some n, Some k) \<Rightarrow>
          (case vars s n of
             None \<Rightarrow> Inl Ill_formed
           | Some old \<Rightarrow> let new = convert (val_type old) k in Inr (new, store n new s))
      | _ \<Rightarrow> Inl Ill_formed)"

text \<open>
  Evaluating an expression gives its value and the state after its side effects, or
  stops in undefined behaviour. A cast to \<^verbatim>\<open>void\<close> evaluates its operand and discards the
  value. An increment evaluates its operand, an lvalue, and then increments the variable
  it designates. The right side of an assignment is evaluated before the left side, and
  then the assignment is made; the operands of a binary operator are taken from left to
  right.
\<close>

fun eval ::
  "bool \<Rightarrow> expr \<Rightarrow> 'w::len word state \<Rightarrow> error + ('w word cval \<times> 'w word state)" where
  "eval cs (Var n) s = (case vars s n of None \<Rightarrow> Inl Ill_formed | Some v \<Rightarrow> Inr (v, s))"
| "eval cs (Paren e) s = eval cs e s"
| "eval cs (PostInc e) s =
     (case eval cs e s of
        Inl err \<Rightarrow> Inl err
      | Inr (v, s1) \<Rightarrow>
          (case lvalue_name e of
             None \<Rightarrow> Inl Ill_formed
           | Some n \<Rightarrow>
               (case vars s1 n of
                  None \<Rightarrow> Inl Ill_formed
                | Some old \<Rightarrow>
                    (case increment cs old of
                       Inl err \<Rightarrow> Inl err
                     | Inr new \<Rightarrow> Inr (old, store n new s1)))))"
| "eval cs (CastVoid e) s =
     (case eval cs e s of Inl err \<Rightarrow> Inl err | Inr (v, s') \<Rightarrow> Inr (VoidVal, s'))"
| "eval cs (Bin op l r) s =
     (case eval cs l s of
        Inl err \<Rightarrow> Inl err
      | Inr (a, s1) \<Rightarrow>
          (case eval cs r s1 of
             Inl err \<Rightarrow> Inl err
           | Inr (b, s2) \<Rightarrow>
               (case binary cs op a b of Inl err \<Rightarrow> Inl err | Inr c \<Rightarrow> Inr (c, s2))))"
| "eval cs (Assign l r) s =
     (case eval cs r s of
        Inl err \<Rightarrow> Inl err
      | Inr (b, s1) \<Rightarrow>
          (case eval cs l s1 of Inl err \<Rightarrow> Inl err | Inr (a, s2) \<Rightarrow> assign cs l b s2))"
| "eval cs (Comma l r) s =
     (case eval cs l s of Inl err \<Rightarrow> Inl err | Inr (v, s1) \<Rightarrow> eval cs r s1)"

text \<open>An expression statement evaluates its expression and keeps the state.\<close>

fun exec :: "bool \<Rightarrow> stmt \<Rightarrow> 'w::len word state \<Rightarrow> error + 'w word state" where
  "exec cs (ExprStmt e) s = (case eval cs e s of Inl err \<Rightarrow> Inl err | Inr (v, s') \<Rightarrow> Inr s')"

text \<open>
  The side effects an expression has when its evaluation comes to its end: one write for
  each increment and each assignment in it.
\<close>

fun effects :: "expr \<Rightarrow> nat" where
  "effects (Var n) = 0"
| "effects (Paren e) = effects e"
| "effects (PostInc e) = Suc (effects e)"
| "effects (CastVoid e) = effects e"
| "effects (Bin op l r) = effects l + effects r"
| "effects (Assign l r) = Suc (effects l + effects r)"
| "effects (Comma l r) = effects l + effects r"

section \<open>Properties of the export macro\<close>

text \<open>
  C2. \<^verbatim>\<open>TTVSDK_API\<close> expands to the attribute \<^verbatim>\<open>__attribute__((visibility("default")))\<close>
  when the platform flag \<^verbatim>\<open>TTV_PLATFORM_MAC\<close> is set (it has a value other than 0), and to
  the empty token sequence on every other platform (the flag is 0 or not defined).
\<close>

theorem TTVSDK_API_expansion:
  "(v \<noteq> 0 \<longrightarrow>
      TTVSDK_API (Defined_as v) =
        Inr [''__attribute__'', ''('', ''('', ''visibility'', ''('',
             [CHR 0x22, CHR ''d'', CHR ''e'', CHR ''f'', CHR ''a'', CHR ''u'', CHR ''l'', CHR ''t'',
              CHR 0x22], '')'', '')'', '')''])
   \<and> TTVSDK_API (Defined_as 0) = Inr []
   \<and> TTVSDK_API Not_defined = Inr []"
  by (simp add: TTVSDK_API_def)

theorem TTVSDK_API_expansion_witness:
  "(1 :: 64 word) \<noteq> 0
   \<and> TTVSDK_API (Defined_as 1) =
        Inr [''__attribute__'', ''('', ''('', ''visibility'', ''('',
             [CHR 0x22, CHR ''d'', CHR ''e'', CHR ''f'', CHR ''a'', CHR ''u'', CHR ''l'', CHR ''t'',
              CHR 0x22], '')'', '')'', '')'']
   \<and> TTVSDK_API (Defined_as 0) = Inr []
   \<and> TTVSDK_API Not_defined = Inr []"
  using TTVSDK_API_expansion [of 1] by simp

text \<open>
  A flag that is defined with no value is not the flag of a platform: the directive is
  an error, and the macro has no expansion. A value that is a multiple of \<open>2 ^ 64\<close> is 0
  to the preprocessor.
\<close>

lemma TTVSDK_API_invalid_flag: "TTVSDK_API Defined_invalid = Inl Invalid_if_expression"
  by (simp add: TTVSDK_API_def)

lemma TTVSDK_API_wrapped_flag: "TTVSDK_API (Defined_as (word_of_int (2 ^ 64))) = Inr []"
  by (simp add: TTVSDK_API_def)

section \<open>Properties of the type aliases\<close>

lemma high_bit_iff: "bit (b :: 8 word) 7 \<longleftrightarrow> 0x80 \<le> b"
proof -
  have r: "0 \<le> Word.uint b" "Word.uint b < 256"
    using uint_bounded [of b] by simp_all
  have "bit b 7 \<longleftrightarrow> bit (Word.uint b) 7"
    by (simp add: bit_uint_iff)
  also have "\<dots> \<longleftrightarrow> odd (Word.uint b div 128)"
    by (simp add: bit_iff_odd)
  also have "\<dots> \<longleftrightarrow> 128 \<le> Word.uint b"
    using r by presburger
  also have "\<dots> \<longleftrightarrow> 0x80 \<le> b"
    by (simp add: word_le_def)
  finally show ?thesis .
qed

lemma range_sint_char: "range (sint :: c_char \<Rightarrow> int) = {- 128 .. 127}"
proof (rule set_eqI)
  fix n :: int
  show "n \<in> range (sint :: c_char \<Rightarrow> int) \<longleftrightarrow> n \<in> {- 128 .. 127}"
  proof
    assume "n \<in> range (sint :: c_char \<Rightarrow> int)"
    then obtain c :: c_char where "n = sint c" by blast
    then show "n \<in> {- 128 .. 127}"
      using sint_ge [of c] sint_lt [of c] by simp
  next
    assume "n \<in> {- 128 .. 127}"
    then have "signed_take_bit 7 n = n"
      by (intro signed_take_bit_int_eq_self) simp_all
    then have "sint (word_of_int n :: c_char) = n"
      by (simp add: sint_sbintrunc')
    then show "n \<in> range (sint :: c_char \<Rightarrow> int)"
      by (metis rangeI)
  qed
qed

lemma range_uint_char: "range (Word.uint :: c_char \<Rightarrow> int) = {0 .. 255}"
  using range_uint [where 'a = 8] by auto

lemma inj_utf8char_value: "inj (utf8char_value cs)"
proof (rule injI)
  fix x y :: utf8char
  assume e: "utf8char_value cs x = utf8char_value cs y"
  show "x = y"
  proof (cases cs)
    case True
    with e have "sint x = sint y" by (simp add: utf8char_value_def)
    then show ?thesis by (rule signed_word_eqI)
  next
    case False
    with e have "Word.uint x = Word.uint y" by (simp add: utf8char_value_def)
    then show ?thesis by (rule word_uint_eqI)
  qed
qed

text \<open>
  C3. \<^verbatim>\<open>utf8char\<close> is the type \<^verbatim>\<open>char\<close> under a second name: one code unit of 8 bits, of size
  1, with nothing added. The type validates nothing: the 256 bytes are 256 different
  values of the type, and they are all its values (\<open>-128\<close> to \<open>127\<close> where \<^verbatim>\<open>char\<close> is
  signed, \<open>0\<close> to \<open>255\<close> where it is not), among them the bytes that no UTF-8 text
  contains.
\<close>

theorem utf8char_is_any_byte:
  "typedefs ''utf8char'' = Some TChar
   \<and> object_bits (CharVal c) = 8
   \<and> sizeof (CharVal c) = 1
   \<and> inj (utf8char_value cs)
   \<and> range (utf8char_value cs) = (if cs then {- 128 .. 127} else {0 .. 255})"
proof -
  have "utf8char_value True = sint" "utf8char_value False = Word.uint"
    by (rule ext, simp add: utf8char_value_def)+
  then have "range (utf8char_value cs) = (if cs then {- 128 .. 127} else {0 .. 255})"
    using range_sint_char range_uint_char by (cases cs) simp_all
  then show ?thesis
    by (simp add: typedefs_def sizeof_def word_size inj_utf8char_value)
qed

text \<open>
  C4. \<^verbatim>\<open>uint\<close> is \<^verbatim>\<open>unsigned int\<close> under a second name. Its values are the numbers \<open>v\<close> with
  \<open>0 \<le> v < 2 ^ w\<close>, for \<open>w\<close> the width of \<^verbatim>\<open>unsigned int\<close>, and every such number is a
  value of the type: there is no invariant beyond the bound.
\<close>

theorem uint_range:
  "typedefs ''uint'' = Some TUnsignedInt
   \<and> range (uint_value :: 'w::len uint \<Rightarrow> int) = {0 ..< 2 ^ LENGTH('w)}"
proof -
  have "(uint_value :: 'w uint \<Rightarrow> int) = Word.uint"
    by (rule ext) (simp add: uint_value_def)
  then show ?thesis
    by (simp add: range_uint typedefs_def)
qed

text \<open>
  C9. \<^verbatim>\<open>utf8char\<close> is plain \<^verbatim>\<open>char\<close>, not an unsigned byte type. Where \<^verbatim>\<open>char\<close> is signed, a
  \<^verbatim>\<open>utf8char\<close> is negative exactly when its byte has the high bit set (\<open>0x80\<close> to \<open>0xFF\<close>,
  the bytes of the multi-byte sequences of UTF-8); where \<^verbatim>\<open>char\<close> is unsigned, none is
  negative.
\<close>

theorem utf8char_high_bit_negative:
  "typedefs ''utf8char'' = Some TChar
   \<and> (utf8char_value True b < 0 \<longleftrightarrow> 0x80 \<le> b)
   \<and> 0 \<le> utf8char_value False b"
  using bit_last_iff [of b] high_bit_iff [of b]
  by (simp add: utf8char_value_def typedefs_def)

text \<open>
  C10. Addition, subtraction and multiplication of two \<^verbatim>\<open>uint\<close> values give a \<^verbatim>\<open>uint\<close>:
  the result of the operation on the numbers, modulo \<open>2 ^ w\<close>. None of them is undefined
  behaviour or an error.
\<close>

theorem uint_arithmetic_modular:
  fixes a b :: "'w::len uint"
  shows
    "(\<exists>c. binary cs Plus (UIntVal a) (UIntVal b) = Inr (UIntVal c)
        \<and> uint_value c = (uint_value a + uint_value b) mod 2 ^ LENGTH('w))
   \<and> (\<exists>c. binary cs Minus (UIntVal a) (UIntVal b) = Inr (UIntVal c)
        \<and> uint_value c = (uint_value a - uint_value b) mod 2 ^ LENGTH('w))
   \<and> (\<exists>c. binary cs Times (UIntVal a) (UIntVal b) = Inr (UIntVal c)
        \<and> uint_value c = (uint_value a * uint_value b) mod 2 ^ LENGTH('w))"
  by (simp add: binary_def unsigned_op_def uint_value_def uint_word_ariths)

text \<open>
  By contrast an operation of \<^verbatim>\<open>int\<close> can overflow, and a division can be by zero: the
  error branch of the arithmetic is not an empty one.
\<close>

lemma int_overflow_example:
  "binary cs Plus (IntVal (2147483647 :: 32 word)) (IntVal 1) = Inl Signed_overflow"
  by (simp add: binary_def signed_op_def)

lemma uint_wrap_example:
  "binary cs Plus (UIntVal (4294967295 :: 32 word)) (UIntVal 1) = Inr (UIntVal 0)"
  by (simp add: binary_def unsigned_op_def uint_value_def)

lemma uint_division_by_zero_example:
  "binary cs Divide (UIntVal (1 :: 32 word)) (UIntVal 0) = Inl Division_by_zero"
  by (simp add: binary_def unsigned_op_def uint_value_def)

section \<open>Properties of the unused-value macro\<close>

subsection \<open>The expansion and its parse\<close>

text \<open>
  The argument of \<open>UNUSED\<close> is the token sequence of one argument of the macro, after
  the expansion of the macros in it. It has no comma outside parentheses unless another
  macro has put one there.
\<close>

lemma UNUSED_tokens: "UNUSED arg = [''('', ''void'', '')''] @ arg @ ['';'']"
  by (simp add: UNUSED_def)

lemma unparse_prefix_void_cast:
  "unparse (prefix_void_cast x) = [''('', ''void'', '')''] @ unparse x"
  by (induction x rule: prefix_void_cast.induct) simp_all

text \<open>The tokens of \<open>UNUSED_stmt x\<close> are the expansion of the macro on the tokens of \<open>x\<close>.\<close>

lemma unparse_UNUSED_stmt: "unparse_stmt (UNUSED_stmt x) = UNUSED (unparse x)"
  by (simp add: UNUSED_stmt_def UNUSED_tokens unparse_prefix_void_cast)

lemma op_level_loose: "2 < op_level op"
  by (cases op) simp_all

lemma level_prefix_void_cast: "level (prefix_void_cast x) = max 2 (level x)"
proof (induction x rule: prefix_void_cast.induct)
  case (1 op l r)
  show ?case using op_level_loose [of op] by simp
qed simp_all

lemma grammatical_prefix_void_cast: "grammatical x \<Longrightarrow> grammatical (prefix_void_cast x)"
proof (induction x rule: prefix_void_cast.induct)
  case (1 op l r)
  then show ?case
    using op_level_loose [of op] by (simp add: level_prefix_void_cast)
qed (simp_all add: level_prefix_void_cast)

text \<open>So the expansion on the tokens of a parse tree \<open>x\<close> parses as \<open>UNUSED_stmt x\<close>.\<close>

lemma UNUSED_parses:
  "grammatical x \<Longrightarrow> parses_as (UNUSED (unparse x)) (UNUSED_stmt x)"
  using grammatical_prefix_void_cast [of x]
  by (simp add: parses_as_def unparse_UNUSED_stmt) (simp add: UNUSED_stmt_def)

lemma prefix_void_cast_tight: "level x \<le> 2 \<Longrightarrow> prefix_void_cast x = CastVoid x"
proof (cases x)
  case (Bin op l r)
  assume "level x \<le> 2"
  with Bin show ?thesis using op_level_loose [of op] by simp
qed simp_all

subsection \<open>The expansion and the argument\<close>

text \<open>An lvalue has the type of the variable it designates.\<close>

lemma lvalue_typed:
  "lvalue_name e = Some n \<Longrightarrow> typeof \<Gamma> e = Some t \<Longrightarrow> t \<noteq> TVoid \<and> \<Gamma> n = Some t"
  by (induction e arbitrary: t) (auto split: option.splits if_splits)

text \<open>
  Where the expansion has a type other than \<^verbatim>\<open>void\<close> it evaluates as the argument does
  and designates what the argument designates; in every case the statement of the
  expansion runs as the statement of the argument.
\<close>

lemma prefix_void_cast_eval:
  fixes s :: "'w::len word state"
  shows "typeof \<Gamma> (prefix_void_cast x) = Some t \<Longrightarrow>
     (t \<noteq> TVoid \<longrightarrow>
        eval cs (prefix_void_cast x) s = eval cs x s
        \<and> lvalue_name (prefix_void_cast x) = lvalue_name x)
     \<and> exec cs (ExprStmt (prefix_void_cast x)) s = exec cs (ExprStmt x) s"
proof (induction x arbitrary: t s rule: prefix_void_cast.induct)
  case (1 op l r)
  from "1.prems" obtain a where a: "typeof \<Gamma> (prefix_void_cast l) = Some a" "a \<noteq> TVoid"
    by (auto split: option.splits if_splits)
  from "1.IH" [OF a(1)] a(2) have "eval cs (prefix_void_cast l) s = eval cs l s"
    by simp
  then show ?case by simp
next
  case (2 l r)
  from "2.prems" obtain n a where
    a: "lvalue_name (prefix_void_cast l) = Some n" "typeof \<Gamma> (prefix_void_cast l) = Some a"
    by (auto split: option.splits)
  then have "a \<noteq> TVoid"
    using lvalue_typed by blast
  with "2.IH" [OF a(2)]
  have e: "eval cs (prefix_void_cast l) s' = eval cs l s'"
    and n: "lvalue_name (prefix_void_cast l) = lvalue_name l" for s' :: "'w word state"
    by blast+
  have "assign cs (prefix_void_cast l) b s' = assign cs l b s'" for b and s' :: "'w word state"
    by (simp add: n assign_def)
  then have "eval cs (Assign (prefix_void_cast l) r) s = eval cs (Assign l r) s"
    by (simp add: e split: sum.splits prod.splits)
  then show ?case by (simp add: n)
next
  case (3 l r)
  from "3.prems" obtain a where a: "typeof \<Gamma> (prefix_void_cast l) = Some a"
    by (auto split: option.splits)
  from "3.IH" [OF a]
  have e: "exec cs (ExprStmt (prefix_void_cast l)) s = exec cs (ExprStmt l) s"
    by simp
  have "eval cs (Comma (prefix_void_cast l) r) s = eval cs (Comma l r) s"
    using e by (auto split: sum.splits prod.splits)
  then show ?case by simp
qed (auto split: sum.splits prod.splits option.splits if_splits)

lemma UNUSED_stmt_exec:
  "compiles \<Gamma> (UNUSED_stmt x) \<Longrightarrow> exec cs (UNUSED_stmt x) s = exec cs (ExprStmt x) s"
  using prefix_void_cast_eval [of \<Gamma> x _ cs s] by (auto simp: UNUSED_stmt_def)

text \<open>The argument of an expansion that compiles compiles itself.\<close>

lemma prefix_void_cast_typed:
  "typeof \<Gamma> (prefix_void_cast x) = Some t \<Longrightarrow>
     (t \<noteq> TVoid \<longrightarrow> typeof \<Gamma> x = Some t \<and> lvalue_name (prefix_void_cast x) = lvalue_name x)
     \<and> typeof \<Gamma> x \<noteq> None"
proof (induction x arbitrary: t rule: prefix_void_cast.induct)
  case (2 l r)
  from "2.prems" obtain n a where
    a: "lvalue_name (prefix_void_cast l) = Some n" "typeof \<Gamma> (prefix_void_cast l) = Some a"
    by (auto split: option.splits)
  then have "a \<noteq> TVoid"
    using lvalue_typed by blast
  with "2.IH" [OF a(2)] a "2.prems" show ?case
    by (auto split: option.splits if_splits)
qed (auto split: option.splits if_splits)

text \<open>
  The parameter of the macro has no parentheses of its own. An argument with an operator
  that binds looser than the cast and no comma outside parentheses (level 5 at most)
  gives an expansion the compiler rejects: the expansions that compile are those of the
  arguments that are cast-expressions.
\<close>

lemma UNUSED_compiles_only_tight:
  "grammatical x \<Longrightarrow> level x \<le> 5 \<Longrightarrow> typeof \<Gamma> (prefix_void_cast x) = Some t \<Longrightarrow>
     t = TVoid \<and> level x \<le> 2"
proof (induction x arbitrary: t rule: prefix_void_cast.induct)
  case (1 op l r)
  have "level l \<le> 5"
    using "1.prems"(1) by (cases op) auto
  then show ?case
    using 1 by (auto split: option.splits if_splits)
next
  case (2 l r)
  from "2.prems" obtain n a where
    a: "lvalue_name (prefix_void_cast l) = Some n" "typeof \<Gamma> (prefix_void_cast l) = Some a"
    by (auto split: option.splits)
  then have "a \<noteq> TVoid"
    using lvalue_typed by blast
  moreover have "a = TVoid"
    using "2.IH" [OF _ _ a(2)] "2.prems" by simp
  ultimately show ?case by simp
qed (auto split: option.splits if_splits)

text \<open>For an argument that is a cast-expression the expansion compiles when the argument does.\<close>

lemma UNUSED_compiles_tight:
  "level x \<le> 2 \<Longrightarrow> compiles \<Gamma> (UNUSED_stmt x) \<longleftrightarrow> typeof \<Gamma> x \<noteq> None"
  by (simp add: UNUSED_stmt_def prefix_void_cast_tight split: option.splits)

lemma UNUSED_sum_rejected: "\<not> compiles \<Gamma> (UNUSED_stmt (Bin op (Var a) (Var b)))"
  by (simp add: UNUSED_stmt_def split: option.splits)

subsection \<open>What an evaluation changes\<close>

text \<open>
  An evaluation never changes the type of a variable; it adds one write for each of the
  side effects of the expression; and without side effects it leaves the state as it is.
\<close>

lemma val_type_convert: "val_type (convert t k) = t"
  by (cases t) simp_all

lemma increment_type: "increment cs old = Inr new \<Longrightarrow> val_type new = val_type old"
  by (auto simp: increment_def val_type_convert split: sum.splits option.splits)

lemma decls_store:
  "vars s n = Some old \<Longrightarrow> val_type new = val_type old \<Longrightarrow> decls (store n new s) = decls s"
  by (auto simp: decls_def store_def fun_eq_iff)

lemma writes_store: "writes (store n v s) = writes s @ [(n, v)]"
  by (simp add: store_def)

lemma eval_decls: "eval cs x s = Inr (v, s') \<Longrightarrow> decls s' = decls s"
proof (induction x arbitrary: s v s')
  case (PostInc x)
  then show ?case
    by (auto simp: decls_store increment_type split: sum.splits option.splits prod.splits)
next
  case (Assign l r)
  then show ?case
    by (auto simp: assign_def decls_store val_type_convert Let_def
        split: sum.splits option.splits prod.splits)
next
  case (Bin op l r)
  then show ?case
    by (fastforce split: sum.splits prod.splits)
qed (auto split: sum.splits option.splits prod.splits)

lemma eval_writes:
  "eval cs x s = Inr (v, s') \<Longrightarrow> \<exists>ws. writes s' = writes s @ ws \<and> length ws = effects x"
proof (induction x arbitrary: s v s')
  case (PostInc x)
  then show ?case
    by (fastforce simp: writes_store split: sum.splits option.splits prod.splits)
next
  case (Assign l r)
  then show ?case
    by (fastforce simp: assign_def writes_store Let_def split: sum.splits option.splits prod.splits)
next
  case (Bin op l r)
  then show ?case
    by (fastforce split: sum.splits prod.splits)
next
  case (Comma l r)
  then show ?case
    by (fastforce split: sum.splits prod.splits)
qed (auto split: sum.splits option.splits prod.splits)

lemma eval_pure: "effects x = 0 \<Longrightarrow> eval cs x s = Inr (v, s') \<Longrightarrow> s' = s"
proof (induction x arbitrary: s v s')
  case (Bin op l r)
  then show ?case
    by (fastforce split: sum.splits prod.splits)
next
  case (Comma l r)
  then show ?case
    by (fastforce split: sum.splits prod.splits)
qed (auto split: sum.splits option.splits prod.splits)

subsection \<open>Frame, evaluation count and the unparenthesised parameter\<close>

text \<open>
  C1. For every argument \<open>x\<close> whose statement \<^verbatim>\<open>UNUSED(x)\<close> is a program (the expansion
  compiles), the expansion of the macro parses as \<open>UNUSED_stmt x\<close>, and executing it has
  no effect of its own: it ends as the evaluation of \<open>x\<close> alone ends, in the same state
  or the same undefined behaviour. No variable changes its type, and for an \<open>x\<close> without
  side effects, a value, the state after the statement is the state before it: \<open>x\<close> and
  every other variable keep their values.
\<close>

theorem UNUSED_frame:
  fixes s :: "'w::len word state"
  assumes "grammatical x" and "compiles (decls s) (UNUSED_stmt x)"
  shows "parses_as (UNUSED (unparse x)) (UNUSED_stmt x)
     \<and> exec cs (UNUSED_stmt x) s =
         (case eval cs x s of Inl err \<Rightarrow> Inl err | Inr (v, s') \<Rightarrow> Inr s')
     \<and> (\<forall>s'. exec cs (UNUSED_stmt x) s = Inr s' \<longrightarrow>
           decls s' = decls s \<and> (effects x = 0 \<longrightarrow> s' = s))"
proof -
  have e: "exec cs (UNUSED_stmt x) s =
      (case eval cs x s of Inl err \<Rightarrow> Inl err | Inr (v, s') \<Rightarrow> Inr s')"
    using UNUSED_stmt_exec [OF assms(2), of cs s] by simp
  have "decls s' = decls s \<and> (effects x = 0 \<longrightarrow> s' = s)"
    if "exec cs (UNUSED_stmt x) s = Inr s'" for s'
  proof -
    from that e obtain v where "eval cs x s = Inr (v, s')"
      by (auto split: sum.splits prod.splits)
    then show ?thesis
      using eval_decls eval_pure by blast
  qed
  then show ?thesis
    using e UNUSED_parses [OF assms(1)] by blast
qed

theorem UNUSED_frame_witness:
  "grammatical (Paren (Assign (Var ''n'') (Var ''m'')))
   \<and> compiles (decls \<lparr>vars = [''n'' \<mapsto> CharVal 0x41, ''m'' \<mapsto> IntVal (195 :: 32 word)], writes = []\<rparr>)
        (UNUSED_stmt (Paren (Assign (Var ''n'') (Var ''m''))))
   \<and> parses_as (UNUSED [''('', ''n'', ''='', ''m'', '')''])
        (UNUSED_stmt (Paren (Assign (Var ''n'') (Var ''m''))))
   \<and> exec True (UNUSED_stmt (Paren (Assign (Var ''n'') (Var ''m''))))
        \<lparr>vars = [''n'' \<mapsto> CharVal 0x41, ''m'' \<mapsto> IntVal (195 :: 32 word)], writes = []\<rparr>
      = Inr \<lparr>vars = [''n'' \<mapsto> CharVal 0xC3, ''m'' \<mapsto> IntVal 195],
              writes = [(''n'', CharVal 0xC3)]\<rparr>
   \<and> decls \<lparr>vars = [''n'' \<mapsto> CharVal 0xC3, ''m'' \<mapsto> IntVal (195 :: 32 word)],
              writes = [(''n'', CharVal 0xC3)]\<rparr>
      = decls \<lparr>vars = [''n'' \<mapsto> CharVal 0x41, ''m'' \<mapsto> IntVal (195 :: 32 word)], writes = []\<rparr>"
proof -
  let ?s = "\<lparr>vars = [''n'' \<mapsto> CharVal 0x41, ''m'' \<mapsto> IntVal (195 :: 32 word)], writes = []\<rparr>"
  let ?s' = "\<lparr>vars = [''n'' \<mapsto> CharVal 0xC3, ''m'' \<mapsto> IntVal (195 :: 32 word)],
      writes = [(''n'', CharVal 0xC3)]\<rparr>"
  let ?x = "Paren (Assign (Var ''n'') (Var ''m''))"
  have g: "grammatical ?x"
    by (simp add: is_identifier_def identifier_char_def)
  have c: "compiles (decls ?s) (UNUSED_stmt ?x)"
    by (simp add: UNUSED_stmt_def decls_def)
  have "vars ?s ''n'' = Some (CharVal 0x41)" "vars ?s ''m'' = Some (IntVal 195)"
    by simp_all
  then have e: "eval True ?x ?s = Inr (CharVal 0xC3, ?s')"
    by (simp add: assign_def store_def fun_upd_twist Let_def)
  from UNUSED_frame [OF g c, of True] e
  have "parses_as (UNUSED (unparse ?x)) (UNUSED_stmt ?x)"
    and x: "exec True (UNUSED_stmt ?x) ?s = Inr ?s'"
    and "\<forall>s'. exec True (UNUSED_stmt ?x) ?s = Inr s' \<longrightarrow> decls s' = decls ?s"
    by simp_all
  then show ?thesis
    using g c by simp
qed

text \<open>
  C8. A statement \<^verbatim>\<open>UNUSED(x)\<close> that is executed evaluates \<open>x\<close> exactly once. When the
  evaluation of \<open>x\<close> ends in a state, the statement ends in that state, and the writes
  made are as many as \<open>x\<close> has side effects, added to the writes before: no side effect
  is left out and none is made twice. When the evaluation of \<open>x\<close> stops in undefined
  behaviour, so does the statement.
\<close>

theorem UNUSED_evaluates_once:
  fixes s :: "'w::len word state"
  assumes "grammatical x" and "compiles (decls s) (UNUSED_stmt x)"
  shows "parses_as (UNUSED (unparse x)) (UNUSED_stmt x)
     \<and> (\<forall>v s1. eval cs x s = Inr (v, s1) \<longrightarrow>
           exec cs (UNUSED_stmt x) s = Inr s1
           \<and> (\<exists>ws. writes s1 = writes s @ ws \<and> length ws = effects x))
     \<and> (\<forall>err. eval cs x s = Inl err \<longrightarrow> exec cs (UNUSED_stmt x) s = Inl err)"
proof -
  have e: "exec cs (UNUSED_stmt x) s =
      (case eval cs x s of Inl err \<Rightarrow> Inl err | Inr (v, s') \<Rightarrow> Inr s')"
    using UNUSED_stmt_exec [OF assms(2), of cs s] by simp
  show ?thesis
    using e UNUSED_parses [OF assms(1)] eval_writes [of cs x s] by auto
qed

theorem UNUSED_evaluates_once_witness:
  "grammatical (PostInc (Var ''i''))
   \<and> compiles (decls \<lparr>vars = [''i'' \<mapsto> UIntVal (41 :: 32 word)], writes = []\<rparr>)
        (UNUSED_stmt (PostInc (Var ''i'')))
   \<and> parses_as (UNUSED [''i'', ''++'']) (UNUSED_stmt (PostInc (Var ''i'')))
   \<and> effects (PostInc (Var ''i'')) = 1
   \<and> exec True (UNUSED_stmt (PostInc (Var ''i'')))
        \<lparr>vars = [''i'' \<mapsto> UIntVal (41 :: 32 word)], writes = []\<rparr>
      = Inr \<lparr>vars = [''i'' \<mapsto> UIntVal 42], writes = [(''i'', UIntVal 42)]\<rparr>"
proof -
  let ?s = "\<lparr>vars = [''i'' \<mapsto> UIntVal (41 :: 32 word)], writes = []\<rparr>"
  let ?x = "PostInc (Var ''i'')"
  have g: "grammatical ?x"
    by (simp add: is_identifier_def identifier_char_def)
  have c: "compiles (decls ?s) (UNUSED_stmt ?x)"
    by (simp add: UNUSED_stmt_def decls_def)
  have "increment True (UIntVal (41 :: 32 word)) = Inr (UIntVal 42)"
    by (simp add: increment_def binary_def unsigned_op_def uint_value_def)
  then have e: "eval True ?x ?s
      = Inr (UIntVal 41, \<lparr>vars = [''i'' \<mapsto> UIntVal 42], writes = [(''i'', UIntVal 42)]\<rparr>)"
    by (simp add: store_def)
  from UNUSED_evaluates_once [OF g c, of True] e
  have "parses_as (UNUSED (unparse ?x)) (UNUSED_stmt ?x)"
    and "exec True (UNUSED_stmt ?x) ?s
      = Inr \<lparr>vars = [''i'' \<mapsto> UIntVal 42], writes = [(''i'', UIntVal 42)]\<rparr>"
    by blast+
  then show ?thesis
    using g c by simp
qed

text \<open>
  C5. \<^verbatim>\<open>UNUSED\<close> applied to a value does not always succeed. The sum \<^verbatim>\<open>a + b\<close> of two
  \<^verbatim>\<open>int\<close> variables \<open>1\<close> and \<open>2\<close> compiles and evaluates to \<open>3\<close> without an error, but
  \<^verbatim>\<open>UNUSED(a + b)\<close> expands to \<^verbatim>\<open>(void)a + b;\<close>, which is \<^verbatim>\<open>((void)a) + b;\<close>: an operand
  of type \<^verbatim>\<open>void\<close>, a statement the compiler rejects.
\<close>

theorem UNUSED_sum_ill_formed:
  "UNUSED [''a'', ''+'', ''b''] = [''('', ''void'', '')'', ''a'', ''+'', ''b'', '';'']
   \<and> parses_as (UNUSED [''a'', ''+'', ''b''])
        (ExprStmt (Bin Plus (CastVoid (Var ''a'')) (Var ''b'')))
   \<and> UNUSED_stmt (Bin Plus (Var ''a'') (Var ''b''))
      = ExprStmt (Bin Plus (CastVoid (Var ''a'')) (Var ''b''))
   \<and> compiles (decls \<lparr>vars = [''a'' \<mapsto> IntVal (1 :: 32 word), ''b'' \<mapsto> IntVal 2], writes = []\<rparr>)
        (ExprStmt (Bin Plus (Var ''a'') (Var ''b'')))
   \<and> eval True (Bin Plus (Var ''a'') (Var ''b''))
        \<lparr>vars = [''a'' \<mapsto> IntVal (1 :: 32 word), ''b'' \<mapsto> IntVal 2], writes = []\<rparr>
      = Inr (IntVal 3,
             \<lparr>vars = [''a'' \<mapsto> IntVal (1 :: 32 word), ''b'' \<mapsto> IntVal 2], writes = []\<rparr>)
   \<and> \<not> compiles (decls \<lparr>vars = [''a'' \<mapsto> IntVal (1 :: 32 word), ''b'' \<mapsto> IntVal 2], writes = []\<rparr>)
        (UNUSED_stmt (Bin Plus (Var ''a'') (Var ''b'')))
   \<and> exec True (UNUSED_stmt (Bin Plus (Var ''a'') (Var ''b'')))
        \<lparr>vars = [''a'' \<mapsto> IntVal (1 :: 32 word), ''b'' \<mapsto> IntVal 2], writes = []\<rparr>
      = Inl Ill_formed"
  by (simp add: UNUSED_def UNUSED_stmt_def parses_as_def decls_def binary_def signed_op_def
      is_identifier_def identifier_char_def)

end
